theory Spec2Isabelle
  imports Main
begin

section \<open>Data model\<close>

text \<open>
  The handlers of \<^verbatim>\<open>crits/signatures/handlers.py\<close> work on documents of the class
  \<^verbatim>\<open>Signature\<close> held in a database collection. Documents are records, the collection
  is a list in insertion order (\<^verbatim>\<open>.first()\<close> is the first hit in that order), Python
  exceptions are values of \<open>error\<close>, and every handler returns the database it leaves
  behind together with either the value it returns or the exception that escapes it.
\<close>

type_synonym timestamp = nat

text \<open>
  A link id is a UUID. \<open>AutoLink n\<close> is the identifier a fresh document receives when
  none is supplied, \<open>Link s\<close> is one written by a caller.
\<close>

datatype link = AutoLink nat | Link string

record source_instance =
  si_date :: timestamp
  si_method :: string
  si_reference :: string
  si_analyst :: "string option"

record embedded_source =
  es_name :: string
  es_instances :: "source_instance list"

record embedded_relationship =
  rel_type :: string
  rel_object_id :: string
  rel_relationship :: string
  rel_relationship_date :: timestamp
  rel_analyst :: "string option"

record embedded_highlight =
  h_line :: int
  h_line_data :: string
  h_comment :: "string option"
  h_line_date :: "timestamp option"
  h_analyst :: string

record embedded_inline =
  i_line :: int
  i_comment :: string
  i_analyst :: string
  i_date :: timestamp

record signature =
  s_id :: "nat option"
  s_created :: timestamp
  s_description :: "string option"
  s_md5 :: string
  s_data :: string
  s_title :: string
  s_data_type :: string
  s_link_id :: link
  s_version :: "int option"
  s_source :: "embedded_source list"
  s_relationships :: "embedded_relationship list"
  s_highlights :: "embedded_highlight list"
  s_inlines :: "embedded_inline list"
  s_bucket_list :: "string list"
  s_tickets :: "string list"

record db =
  sigs :: "signature list"
  sig_types :: "string list"
  next_id :: nat

datatype error = ValidationError string | AttributeError | ValueError

text \<open>
  The collaborators the handlers call but do not define: \<^verbatim>\<open>hashlib.md5\<close>,
  \<^verbatim>\<open>datetime.datetime.now\<close>, \<^verbatim>\<open>dateutil.parser.parse(..., fuzzy=True)\<close> (\<open>None\<close>
  when it raises \<^verbatim>\<open>ValueError\<close>), \<^verbatim>\<open>is_admin\<close>, \<^verbatim>\<open>class_from_id\<close> (whether the
  related object resolves), and the validation that \<^verbatim>\<open>save\<close> runs (\<open>Some msg\<close> when it
  raises \<^verbatim>\<open>ValidationError(msg)\<close>).
\<close>

record env =
  hash_md5 :: "string \<Rightarrow> string"
  now :: timestamp
  parse :: "string \<Rightarrow> timestamp option"
  is_admin :: "string option \<Rightarrow> bool"
  class_from_id :: "string \<Rightarrow> string \<Rightarrow> bool"
  validate :: "signature \<Rightarrow> string option"

text \<open>
  Values a handler returns: a dict (an association list in the order the source writes
  it), \<^verbatim>\<open>None\<close>, a bool, or an exception object handed back with \<^verbatim>\<open>return e\<close>. The
  \<^verbatim>\<open>html\<close> entry of a dict is the fragment rendered by the template engine; it is kept
  as the name of its template.
\<close>

datatype pyval =
  VBool bool | VStr string | VInt int | VId "nat option" | VSig signature | VHtml string

datatype result = Dict "(string \<times> pyval) list" | PyNone | PyBool bool | PyExc error

type_synonym outcome = "(error + result) \<times> db"

text \<open>
  The forms \<^verbatim>\<open>source_name\<close> can take at run time: \<^verbatim>\<open>None\<close>, a string, an
  \<^verbatim>\<open>EmbeddedSource\<close>, a list (of embedded sources, strings or other objects), or some
  other object, here an integer.
\<close>

datatype src_item = ItemSource embedded_source | ItemStr string | ItemInt int

datatype source_arg =
  SrcNone | SrcStr string | SrcEmbedded embedded_source | SrcList "src_item list" | SrcInt int

section \<open>Python truth values\<close>

fun truthy_str :: "string option \<Rightarrow> bool" where
  "truthy_str None = False"
| "truthy_str (Some s) = (s \<noteq> [])"

fun truthy_source :: "source_arg \<Rightarrow> bool" where
  "truthy_source SrcNone = False"
| "truthy_source (SrcStr s) = (s \<noteq> [])"
| "truthy_source (SrcEmbedded e) = True"
| "truthy_source (SrcList xs) = (xs \<noteq> [])"
| "truthy_source (SrcInt n) = (n \<noteq> 0)"

fun truthy_link :: "link option \<Rightarrow> bool" where
  "truthy_link None = False"
| "truthy_link (Some (Link s)) = (s \<noteq> [])"
| "truthy_link (Some (AutoLink n)) = True"

section \<open>The document class\<close>

text \<open>
  Modelled from the spec: the class \<^verbatim>\<open>Signature\<close> (\<^verbatim>\<open>crits/signatures/signature.py\<close>)
  and \<^verbatim>\<open>create_embedded_source\<close> are not among the sources. A fresh document has no id,
  empty lists and a link id of its own (the spec's example refers to "that record's
  linkId" of a record submitted without one).
\<close>

definition Signature :: "db \<Rightarrow> signature" where
  "Signature d =
     \<lparr>s_id = None, s_created = 0, s_description = None, s_md5 = [], s_data = [],
      s_title = [], s_data_type = [], s_link_id = AutoLink (next_id d), s_version = None,
      s_source = [], s_relationships = [], s_highlights = [], s_inlines = [],
      s_bucket_list = [], s_tickets = []\<rparr>"

text \<open>
  Modelled from the spec: a provenance entry is \<^verbatim>\<open>{sourceName, date, method, reference,
  analyst}\<close>; a bare name becomes an entry with one instance.
\<close>

definition create_embedded_source ::
  "string \<Rightarrow> timestamp \<Rightarrow> string \<Rightarrow> string \<Rightarrow> string option \<Rightarrow> embedded_source" where
  "create_embedded_source name date method reference analyst =
     \<lparr>es_name = name,
      es_instances = [\<lparr>si_date = date, si_method = method, si_reference = reference,
                       si_analyst = analyst\<rparr>]\<rparr>"

text \<open>
  Modelled from the spec: \<^verbatim>\<open>add_source\<close> merges by source name: "an existing source with
  the same name gains a new instance rather than duplicating the source entry"; a new name
  is appended.
\<close>

fun merge_source :: "embedded_source \<Rightarrow> embedded_source list \<Rightarrow> embedded_source list" where
  "merge_source src [] = [src]"
| "merge_source src (s # ss) =
     (if es_name s = es_name src
      then s\<lparr>es_instances := es_instances s @ es_instances src\<rparr> # ss
      else s # merge_source src ss)"

definition add_source :: "embedded_source \<Rightarrow> signature \<Rightarrow> signature" where
  "add_source src sg = sg\<lparr>s_source := merge_source src (s_source sg)\<rparr>"

text \<open>
  Modelled from the spec: \<^verbatim>\<open>save\<close> validates and then writes the document: a document
  without id is inserted under the next free id, one with an id replaces the stored
  document of that id (or is inserted when there is none). A validation failure raises
  \<^verbatim>\<open>ValidationError\<close> and writes nothing. The saved document is returned, which is what
  \<^verbatim>\<open>reload\<close> reads back.
\<close>

definition save :: "env \<Rightarrow> db \<Rightarrow> signature \<Rightarrow> error + (db \<times> signature)" where
  "save e d sg =
     (case validate e sg of
        Some msg \<Rightarrow> Inl (ValidationError msg)
      | None \<Rightarrow>
          (case s_id sg of
             None \<Rightarrow>
               (let sg' = sg\<lparr>s_id := Some (next_id d)\<rparr>
                in Inr (d\<lparr>sigs := sigs d @ [sg'], next_id := Suc (next_id d)\<rparr>, sg'))
           | Some i \<Rightarrow>
               (if Some i \<in> set (map s_id (sigs d))
                then Inr (d\<lparr>sigs := map (\<lambda>r. if s_id r = Some i then sg else r) (sigs d)\<rparr>, sg)
                else Inr (d\<lparr>sigs := sigs d @ [sg]\<rparr>, sg))))"



text \<open>Modelled from the spec: tagging appends the supplied buckets and tickets.\<close>

definition add_bucket_list :: "string list \<Rightarrow> signature \<Rightarrow> signature" where
  "add_bucket_list bs sg = sg\<lparr>s_bucket_list := s_bucket_list sg @ bs\<rparr>"

definition add_ticket :: "string list \<Rightarrow> signature \<Rightarrow> signature" where
  "add_ticket ts sg = sg\<lparr>s_tickets := s_tickets sg @ ts\<rparr>"

text \<open>
  Modelled from the spec: \<^verbatim>\<open>add_relationship\<close> re-creates the relationship "against the
  target with the original relationship kind and date, attributed to the current actor".
\<close>

definition add_relationship ::
  "string \<Rightarrow> string \<Rightarrow> string \<Rightarrow> timestamp \<Rightarrow> string option \<Rightarrow> signature \<Rightarrow> signature" where
  "add_relationship ty oid kind date analyst sg =
     sg\<lparr>s_relationships := s_relationships sg @
          [\<lparr>rel_type = ty, rel_object_id = oid, rel_relationship = kind,
            rel_relationship_date = date, rel_analyst = analyst\<rparr>]\<rparr>"

section \<open>Queries\<close>

text \<open>\<^verbatim>\<open>Signature.objects(md5=md5).first()\<close>\<close>

definition first_by_md5 :: "db \<Rightarrow> string \<Rightarrow> signature option" where
  "first_by_md5 d m = find (\<lambda>s. s_md5 s = m) (sigs d)"

text \<open>\<^verbatim>\<open>Signature.objects(id=_id).first()\<close>\<close>

definition first_by_id :: "db \<Rightarrow> nat \<Rightarrow> signature option" where
  "first_by_id d i = find (\<lambda>s. s_id s = Some i) (sigs d)"

text \<open>
  \<^verbatim>\<open>Signature.objects(link_id=link_id)\<close>: the query compares the stored link id with the
  argument as it was passed; every stored document has a link id, so \<^verbatim>\<open>None\<close> matches
  nothing.
\<close>

fun objects_by_link :: "db \<Rightarrow> link option \<Rightarrow> signature list" where
  "objects_by_link d None = []"
| "objects_by_link d (Some l) = filter (\<lambda>s. s_link_id s = l) (sigs d)"

text \<open>\<^verbatim>\<open>SignatureType.objects(name=data_type).first()\<close>\<close>

definition first_type :: "db \<Rightarrow> string \<Rightarrow> string option" where
  "first_type d n = find (\<lambda>t. t = n) (sig_types d)"

section \<open>handle_signature_file\<close>

definition failure :: "string \<Rightarrow> result" where
  "failure msg = Dict [(''success'', VBool False), (''message'', VStr msg)]"

text \<open>
  Lines 366 to 380: the three accepted forms of \<^verbatim>\<open>source_name\<close>. Anything else falls
  through all three branches and adds nothing. For an \<^verbatim>\<open>EmbeddedSource\<close> the source
  passes \<^verbatim>\<open>method\<close> and \<^verbatim>\<open>reference\<close> on to \<^verbatim>\<open>add_source\<close>; the spec does not say what
  \<^verbatim>\<open>add_source\<close> does with them, and the entry is merged as it is.
\<close>

fun add_list_sources :: "src_item list \<Rightarrow> signature \<Rightarrow> signature" where
  "add_list_sources [] sg = sg"
| "add_list_sources (ItemSource s # xs) sg = add_list_sources xs (add_source s sg)"
| "add_list_sources (x # xs) sg = add_list_sources xs sg"

fun add_sources ::
  "source_arg \<Rightarrow> timestamp \<Rightarrow> string \<Rightarrow> string \<Rightarrow> string option \<Rightarrow> signature \<Rightarrow> signature" where
  "add_sources (SrcStr name) ts method reference user sg =
     (if length name > 0
      then add_source (create_embedded_source name ts method reference user) sg
      else sg)"
| "add_sources (SrcEmbedded s) ts method reference user sg = add_source s sg"
| "add_sources (SrcList xs) ts method reference user sg =
     (if length xs > 0 then add_list_sources xs sg else sg)"
| "add_sources other ts method reference user sg = sg"

text \<open>Lines 391 to 398: the loop over the relationships of the first record of the chain.\<close>

fun copy_relationships ::
  "env \<Rightarrow> string option \<Rightarrow> embedded_relationship list \<Rightarrow> signature \<Rightarrow> signature" where
  "copy_relationships e user [] sg = sg"
| "copy_relationships e user (rel # rels) sg =
     copy_relationships e user rels
       (if class_from_id e (rel_type rel) (rel_object_id rel)
        then add_relationship (rel_type rel) (rel_object_id rel) (rel_relationship rel)
               (rel_relationship_date rel) user sg
        else sg)"

text \<open>
  Lines 383 to 398. With \<^verbatim>\<open>copy_rels\<close> and a first record of the chain that has
  relationships, the document is saved before its version is computed.
\<close>

definition link_and_copy ::
  "env \<Rightarrow> db \<Rightarrow> string option \<Rightarrow> link option \<Rightarrow> bool \<Rightarrow> signature \<Rightarrow> error + (db \<times> signature)" where
  "link_and_copy e d user link_id copy_rels sg =
     (if truthy_link link_id then
        (let sg1 = sg\<lparr>s_link_id := the link_id\<rparr> in
         if copy_rels then
           (case find (\<lambda>s. s_link_id s = the link_id) (sigs d) of
              None \<Rightarrow> Inr (d, sg1)
            | Some rd2 \<Rightarrow>
                (if length (s_relationships rd2) \<noteq> 0 then
                   (case save e d sg1 of
                      Inl err \<Rightarrow> Inl err
                    | Inr (d1, sg2) \<Rightarrow>
                        Inr (d1, copy_relationships e user (s_relationships rd2) sg2))
                 else Inr (d, sg1)))
         else Inr (d, sg1))
      else Inr (d, sg))"

text \<open>
  The handler itself. The four tests of lines 323 to 346 come first and return a failure
  dict; \<open>the\<close> is applied to \<^verbatim>\<open>data\<close>, \<^verbatim>\<open>title\<close> and \<^verbatim>\<open>data_type\<close> only behind the
  test that they are not \<^verbatim>\<open>None\<close>. An exception of \<^verbatim>\<open>save\<close> is not caught here: it
  escapes with the database as the earlier statements left it. \<^verbatim>\<open>run_triage\<close> hands the
  new record to the analysis services and is not part of the result; \<^verbatim>\<open>bucket_list\<close> and
  \<^verbatim>\<open>ticket\<close> are lists, empty when nothing was passed.
\<close>

definition handle_signature_file ::
  "env \<Rightarrow> db \<Rightarrow> string option \<Rightarrow> source_arg \<Rightarrow> string option \<Rightarrow> string option \<Rightarrow>
   string option \<Rightarrow> string option \<Rightarrow> link option \<Rightarrow> string \<Rightarrow> string \<Rightarrow> bool \<Rightarrow>
   string list \<Rightarrow> string list \<Rightarrow> outcome" where
  "handle_signature_file e d data source_name user description title data_type
       link_id method reference copy_rels bucket_list ticket =
     (if \<not> truthy_str data \<or> \<not> truthy_str title \<or> \<not> truthy_str data_type then
        (Inr (failure ''No data object, title, or data type passed in''), d)
      else if \<not> truthy_source source_name then
        (Inr (failure ''Missing source information.''), d)
      else if first_type d (the data_type) = None then
        (Inr (failure ''Invalid data type passed in''), d)
      else if int (length (the data)) \<le> 0 then
        (Inr (failure ''Data length <= 0''), d)
      else
        (let md5 = hash_md5 e (the data);
             timestamp = now e;
             sg0 = (case first_by_md5 d md5 of
                      None \<Rightarrow> (Signature d)\<lparr>s_created := timestamp, s_description := description,
                                 s_md5 := md5, s_data := the data, s_title := the title,
                                 s_data_type := the data_type\<rparr>
                    | Some s \<Rightarrow> s);
             sg1 = add_sources source_name timestamp method reference user sg0
         in case link_and_copy e d user link_id copy_rels sg1 of
              Inl err \<Rightarrow> (Inl err, d)
            | Inr (d1, sg2) \<Rightarrow>
                (let sg3 = sg2\<lparr>s_version := Some (int (length (objects_by_link d1 link_id)) + 1)\<rparr>;
                     sg4 = (if bucket_list \<noteq> [] then add_bucket_list bucket_list sg3 else sg3);
                     sg5 = (if ticket \<noteq> [] then add_ticket ticket sg4 else sg4)
                 in case save e d1 sg5 of
                      Inl err \<Rightarrow> (Inl err, d1)
                    | Inr (d2, sg6) \<Rightarrow>
                        (Inr (Dict [(''success'', VBool True),
                                    (''message'', VStr ''Uploaded signature''),
                                    (''_id'', VId (s_id sg6)),
                                    (''object'', VSig sg6)]), d2))))"

section \<open>update_signature_type\<close>

text \<open>
  Assigning \<^verbatim>\<open>signature.data_type\<close> when the lookup by id returned \<^verbatim>\<open>None\<close> raises
  \<^verbatim>\<open>AttributeError\<close>, which nothing catches.
\<close>

definition update_signature_type :: "env \<Rightarrow> db \<Rightarrow> nat \<Rightarrow> string \<Rightarrow> string option \<Rightarrow> outcome" where
  "update_signature_type e d sid data_type analyst =
     (let signature = first_by_id d sid
      in case first_type d data_type of
           None \<Rightarrow> (Inr PyNone, d)
         | Some name \<Rightarrow>
             (case signature of
                None \<Rightarrow> (Inl AttributeError, d)
              | Some sg \<Rightarrow>
                  (case save e d (sg\<lparr>s_data_type := name\<rparr>) of
                     Inr (d1, sg1) \<Rightarrow> (Inr (Dict [(''success'', VBool True)]), d1)
                   | Inl (ValidationError msg) \<Rightarrow> (Inr (failure msg), d)
                   | Inl err \<Rightarrow> (Inl err, d))))"

section \<open>Highlights and inline comments\<close>

text \<open>
  The \<^verbatim>\<open>line\<close> argument of the two update handlers is a string or an integer
  (\<^verbatim>\<open>:type line: str, int\<close>), and the loops compare each highlight with \<^verbatim>\<open>int(line)\<close>.
  On an integer \<^verbatim>\<open>int\<close> is the identity. On a string it drops the white space around
  it and reads an optional sign followed by decimal digits; anything else raises
  \<^verbatim>\<open>ValueError\<close>.
\<close>

datatype pyline = LineInt int | LineStr string

definition is_space :: "char \<Rightarrow> bool" where
  "is_space c \<longleftrightarrow> c \<in> set [CHR '' '', CHR 0x09, CHR 0x0A, CHR 0x0B, CHR 0x0C, CHR 0x0D]"

definition strip :: "string \<Rightarrow> string" where
  "strip s = rev (dropWhile is_space (rev (dropWhile is_space s)))"

fun digits_value :: "string \<Rightarrow> nat \<Rightarrow> nat option" where
  "digits_value [] acc = Some acc"
| "digits_value (c # cs) acc =
     (if (48::nat) \<le> of_char c \<and> (of_char c :: nat) \<le> 57
      then digits_value cs (10 * acc + (of_char c - 48))
      else None)"

definition int_of_str :: "string \<Rightarrow> int option" where
  "int_of_str s =
     (case strip s of
        [] \<Rightarrow> None
      | c # cs \<Rightarrow>
          if c = CHR ''-'' then
            (if cs = [] then None else map_option (\<lambda>n. - int n) (digits_value cs 0))
          else if c = CHR ''+'' then
            (if cs = [] then None else map_option int (digits_value cs 0))
          else map_option int (digits_value (c # cs) 0))"

fun py_int :: "pyline \<Rightarrow> error + int" where
  "py_int (LineInt n) = Inr n"
| "py_int (LineStr s) = (case int_of_str s of None \<Rightarrow> Inl ValueError | Some n \<Rightarrow> Inr n)"

text \<open>
  The loop of lines 470 to 477 evaluates \<^verbatim>\<open>int(line)\<close> at each highlight it visits,
  stops at the first highlight of the line, changes it and saves. The result is \<open>None\<close>
  when the loop runs to its end, \<open>Some (Inl ValueError)\<close> when \<^verbatim>\<open>int(line)\<close> raises (which
  nothing catches), and the changed list otherwise.
\<close>

fun set_first_comment ::
  "embedded_highlight list \<Rightarrow> pyline \<Rightarrow> string \<Rightarrow> (error + embedded_highlight list) option" where
  "set_first_comment [] line comment = None"
| "set_first_comment (h # hs) line comment =
     (case py_int line of
        Inl err \<Rightarrow> Some (Inl err)
      | Inr n \<Rightarrow>
          if h_line h = n then Some (Inr (h\<lparr>h_comment := Some comment\<rparr> # hs))
          else map_option (map_sum id ((#) h)) (set_first_comment hs line comment))"

definition update_signature_highlight_comment ::
  "env \<Rightarrow> db \<Rightarrow> nat \<Rightarrow> string \<Rightarrow> pyline \<Rightarrow> string option \<Rightarrow> outcome" where
  "update_signature_highlight_comment e d sid comment line analyst =
     (case first_by_id d sid of
        None \<Rightarrow> (Inr PyNone, d)
      | Some sg \<Rightarrow>
          (case set_first_comment (s_highlights sg) line comment of
             None \<Rightarrow> (Inr (failure ''Could not find highlight.''), d)
           | Some (Inl err) \<Rightarrow> (Inl err, d)
           | Some (Inr hs) \<Rightarrow>
               (case save e d (sg\<lparr>s_highlights := hs\<rparr>) of
                  Inr (d1, sg1) \<Rightarrow> (Inr (Dict [(''success'', VBool True)]), d1)
                | Inl (ValidationError msg) \<Rightarrow> (Inr (failure msg), d)
                | Inl err \<Rightarrow> (Inl err, d))))"

text \<open>
  Lines 499 to 506: as above, but the new date comes from \<^verbatim>\<open>parse(date, fuzzy=True)\<close>,
  which is evaluated at the first highlight of the line and outside the \<^verbatim>\<open>try\<close>. The
  result is \<open>None\<close> when no highlight has the line, \<open>Some (Inl ValueError)\<close> when
  \<^verbatim>\<open>int(line)\<close> or the parser raises, and the changed list otherwise.
\<close>

fun set_first_date ::
  "env \<Rightarrow> embedded_highlight list \<Rightarrow> pyline \<Rightarrow> string \<Rightarrow>
   (error + embedded_highlight list) option" where
  "set_first_date e [] line date = None"
| "set_first_date e (h # hs) line date =
     (case py_int line of
        Inl err \<Rightarrow> Some (Inl err)
      | Inr n \<Rightarrow>
          if h_line h = n then
            (case parse e date of
               None \<Rightarrow> Some (Inl ValueError)
             | Some t \<Rightarrow> Some (Inr (h\<lparr>h_line_date := Some t\<rparr> # hs)))
          else map_option (map_sum id ((#) h)) (set_first_date e hs line date))"

definition update_signature_highlight_date ::
  "env \<Rightarrow> db \<Rightarrow> nat \<Rightarrow> string \<Rightarrow> pyline \<Rightarrow> string option \<Rightarrow> outcome" where
  "update_signature_highlight_date e d sid date line analyst =
     (case first_by_id d sid of
        None \<Rightarrow> (Inr PyNone, d)
      | Some sg \<Rightarrow>
          (case set_first_date e (s_highlights sg) line date of
             None \<Rightarrow> (Inr (failure ''Could not find highlight.''), d)
           | Some (Inl err) \<Rightarrow> (Inl err, d)
           | Some (Inr hs) \<Rightarrow>
               (case save e d (sg\<lparr>s_highlights := hs\<rparr>) of
                  Inr (d1, sg1) \<Rightarrow> (Inr (Dict [(''success'', VBool True)]), d1)
                | Inl (ValidationError msg) \<Rightarrow> (Inr (failure msg), d)
                | Inl err \<Rightarrow> (Inl err, d))))"

text \<open>
  Modelled from the spec: the methods \<^verbatim>\<open>add_inline_comment\<close>, \<^verbatim>\<open>add_highlight\<close> and
  \<^verbatim>\<open>remove_highlight\<close> of \<^verbatim>\<open>Signature\<close> are not among the sources. By the spec,
  \<^verbatim>\<open>addInlineComment\<close> "appends to inlineComments", \<^verbatim>\<open>addHighlight\<close> "appends to
  highlights unconditionally", and \<^verbatim>\<open>removeHighlight\<close> "removes all highlights matching
  line". Their lines are the spec's \<^verbatim>\<open>line: int\<close>.
\<close>

definition add_inline_comment :: "env \<Rightarrow> string \<Rightarrow> int \<Rightarrow> string \<Rightarrow> signature \<Rightarrow> signature" where
  "add_inline_comment e comment line_num analyst sg =
     sg\<lparr>s_inlines := s_inlines sg @
          [\<lparr>i_line = line_num, i_comment = comment, i_analyst = analyst, i_date = now e\<rparr>]\<rparr>"

definition add_highlight :: "env \<Rightarrow> int \<Rightarrow> string \<Rightarrow> string \<Rightarrow> signature \<Rightarrow> signature" where
  "add_highlight e line_num line_data analyst sg =
     sg\<lparr>s_highlights := s_highlights sg @
          [\<lparr>h_line = line_num, h_line_data = line_data, h_comment = None,
            h_line_date = Some (now e), h_analyst = analyst\<rparr>]\<rparr>"

definition remove_highlight :: "int \<Rightarrow> string \<Rightarrow> signature \<Rightarrow> signature" where
  "remove_highlight line_num analyst sg =
     sg\<lparr>s_highlights := filter (\<lambda>h. h_line h \<noteq> line_num) (s_highlights sg)\<rparr>"

text \<open>\<^verbatim>\<open>'%s' % line_num\<close> for an integer.\<close>

fun digits :: "nat \<Rightarrow> string" where
  "digits n =
     (if n < 10 then [char_of (48 + n)] else digits (n div 10) @ [char_of (48 + n mod 10)])"

declare digits.simps [simp del]

definition str_int :: "int \<Rightarrow> string" where
  "str_int i = (if i < 0 then CHR ''-'' # digits (nat (- i)) else digits (nat i))"

text \<open>
  In the next three handlers the lookup by id is followed by a method call or an attribute
  read on its result with no test for \<^verbatim>\<open>None\<close>: \<^verbatim>\<open>AttributeError\<close> escapes when no
  record has the id. A \<^verbatim>\<open>ValidationError\<close> of \<^verbatim>\<open>save\<close> is caught and the exception
  object itself is returned.
\<close>

definition new_inline_comment :: "env \<Rightarrow> db \<Rightarrow> nat \<Rightarrow> string \<Rightarrow> int \<Rightarrow> string \<Rightarrow> outcome" where
  "new_inline_comment e d sid comment line_num analyst =
     (case first_by_id d sid of
        None \<Rightarrow> (Inl AttributeError, d)
      | Some sg \<Rightarrow>
          (case save e d (add_inline_comment e comment line_num analyst sg) of
             Inr (d1, sg1) \<Rightarrow>
               (Inr (Dict [(''success'', VBool True),
                           (''message'', VStr (''Comment for line '' @ str_int line_num @
                                               '' added successfully!'')),
                           (''inline'', VBool True),
                           (''line'', VInt line_num),
                           (''html'', VHtml ''inline_comment.html'')]), d1)
           | Inl (ValidationError msg) \<Rightarrow> (Inr (PyExc (ValidationError msg)), d)
           | Inl err \<Rightarrow> (Inl err, d)))"

definition new_highlight :: "env \<Rightarrow> db \<Rightarrow> nat \<Rightarrow> int \<Rightarrow> string \<Rightarrow> string \<Rightarrow> outcome" where
  "new_highlight e d sid line_num line_data analyst =
     (case first_by_id d sid of
        None \<Rightarrow> (Inl AttributeError, d)
      | Some sg \<Rightarrow>
          (case save e d (add_highlight e line_num line_data analyst sg) of
             Inr (d1, sg1) \<Rightarrow>
               (Inr (Dict [(''success'', VBool True),
                           (''html'', VHtml ''signature_highlights.html'')]), d1)
           | Inl (ValidationError msg) \<Rightarrow> (Inr (PyExc (ValidationError msg)), d)
           | Inl err \<Rightarrow> (Inl err, d)))"

definition delete_highlight :: "env \<Rightarrow> db \<Rightarrow> nat \<Rightarrow> int \<Rightarrow> string \<Rightarrow> outcome" where
  "delete_highlight e d sid line_num analyst =
     (case first_by_id d sid of
        None \<Rightarrow> (Inl AttributeError, d)
      | Some sg \<Rightarrow>
          (let highlights = length (s_highlights sg);
               sg1 = remove_highlight line_num analyst sg
           in if length (s_highlights sg1) < highlights then
                (case save e d sg1 of
                   Inr (d1, sg2) \<Rightarrow>
                     (Inr (Dict [(''success'', VBool True),
                                 (''html'', VHtml ''signature_highlights.html'')]), d1)
                 | Inl (ValidationError msg) \<Rightarrow> (Inr (PyExc (ValidationError msg)), d)
                 | Inl err \<Rightarrow> (Inl err, d))
              else (Inr (Dict [(''success'', VBool False)]), d)))"

section \<open>delete_signature\<close>

text \<open>
  Modelled from the spec: \<^verbatim>\<open>signature.delete\<close> is "immediate and complete": the document
  of that id leaves the collection.
\<close>

definition delete :: "db \<Rightarrow> signature \<Rightarrow> db" where
  "delete d sg = d\<lparr>sigs := filter (\<lambda>r. s_id r \<noteq> s_id sg) (sigs d)\<rparr>"

definition delete_signature :: "env \<Rightarrow> db \<Rightarrow> nat \<Rightarrow> string option \<Rightarrow> outcome" where
  "delete_signature e d sid username =
     (if is_admin e username then
        (case first_by_id d sid of
           Some sg \<Rightarrow> (Inr (PyBool True), delete d sg)
         | None \<Rightarrow> (Inr (PyBool False), d))
      else (Inr (PyBool False), d))"

section \<open>Auxiliary notions and test data\<close>

text \<open>What a later step of a handler leaves untouched in a document.\<close>

definition kept :: "signature \<Rightarrow> signature \<Rightarrow> bool" where
  "kept a b \<longleftrightarrow>
     s_id b = s_id a \<and> s_created b = s_created a \<and> s_description b = s_description a \<and>
     s_md5 b = s_md5 a \<and> s_data b = s_data a \<and> s_title b = s_title a \<and>
     s_data_type b = s_data_type a \<and> s_highlights b = s_highlights a \<and>
     s_inlines b = s_inlines a"

text \<open>Lines 403 to 407 as one step.\<close>

definition tagged :: "string list \<Rightarrow> string list \<Rightarrow> signature \<Rightarrow> signature" where
  "tagged bucket_list ticket sg3 =
     (let sg4 = (if bucket_list \<noteq> [] then add_bucket_list bucket_list sg3 else sg3)
      in if ticket \<noteq> [] then add_ticket ticket sg4 else sg4)"

text \<open>
  Collaborators for the concrete runs: the digest of a content is the content itself (so
  distinct contents never collide), the clock stands at 100, the date parser knows one
  date, \<^verbatim>\<open>admin\<close> is the only administrator, every related object resolves, and every
  document passes validation.
\<close>

definition test_env :: env where
  "test_env =
     \<lparr>hash_md5 = (\<lambda>s. s), now = 100,
      parse = (\<lambda>s. if s = ''2014-01-01'' then Some 1388534400 else None),
      is_admin = (\<lambda>u. u = Some ''admin''),
      class_from_id = (\<lambda>t i. True),
      validate = (\<lambda>s. None)\<rparr>"

text \<open>An empty collection with the one registered type \<^verbatim>\<open>YARA\<close>.\<close>

definition empty_db :: db where
  "empty_db = \<lparr>sigs = [], sig_types = [''YARA''], next_id = 0\<rparr>"

text \<open>The collection after a first submission of the content \<^verbatim>\<open>ruleA\<close> under the link id \<^verbatim>\<open>L\<close>.\<close>

definition first_db :: db where
  "first_db = snd (handle_signature_file test_env empty_db (Some ''ruleA'') (SrcStr ''OSINT'')
      (Some ''analyst'') None (Some ''T1'') (Some ''YARA'') (Some (Link ''L'')) [] [] False [] [])"

definition ruleA :: signature where
  "ruleA = \<lparr>s_id = Some 0, s_created = 100, s_description = None, s_md5 = ''ruleA'',
      s_data = ''ruleA'', s_title = ''T1'', s_data_type = ''YARA'', s_link_id = Link ''L'',
      s_version = Some 1,
      s_source = [\<lparr>es_name = ''OSINT'', es_instances = [\<lparr>si_date = 100, si_method = [],
           si_reference = [], si_analyst = Some ''analyst''\<rparr>]\<rparr>],
      s_relationships = [], s_highlights = [], s_inlines = [], s_bucket_list = [],
      s_tickets = []\<rparr>"

text \<open>
  The collection after the first submission and two calls of \<^verbatim>\<open>new_highlight\<close>, for the
  lines 5 and 8 of its record.
\<close>

definition marked_db :: db where
  "marked_db = snd (new_highlight test_env
                      (snd (new_highlight test_env first_db 0 5 ''foo'' ''analyst''))
                      0 8 ''baz'' ''analyst'')"

text \<open>
  The collection after the first submission, once its record has been related to an
  indicator.
\<close>

definition related_db :: db where
  "related_db =
     first_db\<lparr>sigs := map (add_relationship ''Indicator'' ''i1'' ''Related To'' 50 (Some ''analyst''))
                        (sigs first_db)\<rparr>"

text \<open>
  A \<^verbatim>\<open>save\<close> that requires a source, and a record that has none: the content \<^verbatim>\<open>ruleA\<close>
  submitted to the empty collection with the source given as a list of strings, then
  highlighted on line 5.
\<close>

definition strict_env :: env where
  "strict_env = test_env\<lparr>validate :=
     (\<lambda>s. if s_source s = [] then Some ''Field is required: source'' else None)\<rparr>"

definition bare_db :: db where
  "bare_db = snd (handle_signature_file test_env empty_db (Some ''ruleA'')
      (SrcList [ItemStr ''OSINT'']) (Some ''analyst'') None (Some ''T1'') (Some ''YARA'')
      None [] [] False [] [])"

definition bare_marked_db :: db where
  "bare_marked_db = snd (new_highlight test_env bare_db 0 5 ''foo'' ''analyst'')"


section \<open>Collections the handlers produce\<close>

text \<open>
  The collections that arise from one without records by calls of the handlers, with any
  arguments and any collaborators at each call. Other modules of the application write
  other fields of the records (relationships, for one); they are covered by a step that
  may change anything but the lists of highlights.
\<close>

inductive reachable :: "db \<Rightarrow> bool" where
  start: "sigs d = [] \<Longrightarrow> reachable d"
| elsewhere: "reachable d \<Longrightarrow> map s_highlights (sigs d') = map s_highlights (sigs d) \<Longrightarrow>
     reachable d'"
| submitted: "reachable d \<Longrightarrow>
     reachable (snd (handle_signature_file e d data source_name user description title
                       data_type link_id method reference copy_rels bucket_list ticket))"
| retyped: "reachable d \<Longrightarrow> reachable (snd (update_signature_type e d sid data_type analyst))"
| commented: "reachable d \<Longrightarrow>
     reachable (snd (update_signature_highlight_comment e d sid comment line analyst))"
| dated: "reachable d \<Longrightarrow>
     reachable (snd (update_signature_highlight_date e d sid date line analyst))"
| annotated: "reachable d \<Longrightarrow>
     reachable (snd (new_inline_comment e d sid comment line_num name))"
| highlighted: "reachable d \<Longrightarrow>
     reachable (snd (new_highlight e d sid line_num line_data name))"
| unhighlighted: "reachable d \<Longrightarrow> reachable (snd (delete_highlight e d sid line_num name))"
| deleted: "reachable d \<Longrightarrow> reachable (snd (delete_signature e d sid username))"



section \<open>Auxiliary lemmas\<close>

lemma first_type_None_iff: "first_type d n = None \<longleftrightarrow> n \<notin> set (sig_types d)"
  by (auto simp: first_type_def find_None_iff)

lemma first_type_Some: "first_type d n = Some t \<Longrightarrow> t = n \<and> n \<in> set (sig_types d)"
  by (auto simp: first_type_def find_Some_iff)

lemma first_by_id_Some: "first_by_id d i = Some sg \<Longrightarrow> s_id sg = Some i \<and> sg \<in> set (sigs d)"
  by (auto simp: first_by_id_def find_Some_iff)

lemma first_by_md5_Some: "first_by_md5 d m = Some sg \<Longrightarrow> s_md5 sg = m \<and> sg \<in> set (sigs d)"
  by (auto simp: first_by_md5_def find_Some_iff)


lemma save_existing:
  assumes "sg \<in> set (sigs d)" "s_id sg = Some i" "s_id sg' = Some i"
  shows "save e d sg' =
     (case validate e sg' of
        Some msg \<Rightarrow> Inl (ValidationError msg)
      | None \<Rightarrow> Inr (d\<lparr>sigs := map (\<lambda>r. if s_id r = Some i then sg' else r) (sigs d)\<rparr>, sg'))"
proof -
  have "Some i \<in> s_id ` set (sigs d)" using assms(1,2) by force
  then show ?thesis using assms(3) by (simp add: save_def split: option.splits)
qed

lemma save_accepted_new:
  assumes "validate e sg = None" "s_id sg = None"
  shows "save e d sg = Inr (d\<lparr>sigs := sigs d @ [sg\<lparr>s_id := Some (next_id d)\<rparr>],
                              next_id := Suc (next_id d)\<rparr>, sg\<lparr>s_id := Some (next_id d)\<rparr>)"
  using assms by (simp add: save_def Let_def)

lemma save_version: "save e d sg = Inr (d', sg') \<Longrightarrow> s_version sg' = s_version sg"
  by (auto simp: save_def Let_def split: option.splits if_splits)

lemma kept_refl: "kept a a" by (simp add: kept_def)
lemma kept_trans: "kept a b \<Longrightarrow> kept b c \<Longrightarrow> kept a c" by (simp add: kept_def)

lemma add_list_sources_frame:
  "kept sg (add_list_sources xs sg) \<and>
   s_version (add_list_sources xs sg) = s_version sg \<and>
   s_link_id (add_list_sources xs sg) = s_link_id sg"
  by (induction xs sg rule: add_list_sources.induct) (auto simp: kept_def add_source_def)

lemma add_sources_frame:
  "kept sg (add_sources a ts m r u sg) \<and>
   s_version (add_sources a ts m r u sg) = s_version sg \<and>
   s_link_id (add_sources a ts m r u sg) = s_link_id sg"
  using add_list_sources_frame
  by (cases a) (auto simp: kept_def add_source_def)

lemma copy_relationships_frame:
  "kept sg (copy_relationships e u rels sg) \<and>
   s_source (copy_relationships e u rels sg) = s_source sg \<and>
   s_link_id (copy_relationships e u rels sg) = s_link_id sg"
  by (induction rels arbitrary: sg) (auto simp: kept_def add_relationship_def)

lemma tagged_frame:
  "kept sg (tagged bs ts sg) \<and> s_source (tagged bs ts sg) = s_source sg
   \<and> s_version (tagged bs ts sg) = s_version sg \<and> s_link_id (tagged bs ts sg) = s_link_id sg"
  by (simp add: tagged_def kept_def add_bucket_list_def add_ticket_def Let_def)

lemma link_and_copy_existing:
  assumes "link_and_copy e d user link_id copy_rels sg = Inr (d1, sg2)"
    and "s_id sg = Some i" and "Some i \<in> s_id ` set (sigs d)"
  shows "kept sg sg2 \<and> s_source sg2 = s_source sg
       \<and> (d1 = d \<or> (\<exists>sg1. s_id sg1 = Some i \<and> 
               d1 = d\<lparr>sigs := map (\<lambda>r. if s_id r = Some i then sg1 else r) (sigs d)\<rparr>))
       \<and> (\<not> copy_rels \<longrightarrow> d1 = d)"
proof (cases "truthy_link link_id \<and> copy_rels")
  case False
  then show ?thesis using assms(1)
    by (auto simp: link_and_copy_def kept_def Let_def split: if_splits)
next
  case True
  let ?sg1 = "sg\<lparr>s_link_id := the link_id\<rparr>"
  have k1: "kept sg ?sg1" "s_source ?sg1 = s_source sg" "s_id ?sg1 = Some i"
    using assms(2) by (simp_all add: kept_def)
  show ?thesis
  proof (cases "find (\<lambda>s. s_link_id s = the link_id) (sigs d)")
    case None
    with True assms(1) k1 show ?thesis by (auto simp: link_and_copy_def Let_def)
  next
    case (Some rd2)
    show ?thesis
    proof (cases "length (s_relationships rd2) \<noteq> 0")
      case False
      with True Some assms(1) k1 show ?thesis by (auto simp: link_and_copy_def Let_def)
    next
      case rel: True
      from True Some rel assms(1) obtain sgs where
        sv: "save e d ?sg1 = Inr (d1, sgs)" and
        sg2: "sg2 = copy_relationships e user (s_relationships rd2) sgs"
        by (auto simp: link_and_copy_def Let_def split: sum.splits)
      from assms(3) obtain r where r: "r \<in> set (sigs d)" "s_id r = Some i" by auto
      from sv save_existing [OF r k1(3), of e]
      have "sgs = ?sg1" "d1 = d\<lparr>sigs := map (\<lambda>r. if s_id r = Some i then ?sg1 else r) (sigs d)\<rparr>"
        by (auto split: option.splits)
      then have d1: "\<exists>sg1. s_id sg1 = Some i \<and>
               d1 = d\<lparr>sigs := map (\<lambda>r. if s_id r = Some i then sg1 else r) (sigs d)\<rparr>"
        and sgs: "sgs = ?sg1"
        using k1(3) by blast+
      have "kept sg sg2" "s_source sg2 = s_source sg"
        using sg2 sgs k1 copy_relationships_frame [of ?sg1 e user "s_relationships rd2"]
        by (simp_all add: kept_def)
      with d1 True show ?thesis by blast
    qed
  qed
qed

lemma link_and_copy_no_copy:
  "link_and_copy e d user link_id False sg =
     Inr (d, if truthy_link link_id then sg\<lparr>s_link_id := the link_id\<rparr> else sg)"
  by (simp add: link_and_copy_def)


lemma map_replace_twice:
  "s_id b = Some i \<Longrightarrow>
   map (\<lambda>r. if s_id r = Some i then c else r) (map (\<lambda>r. if s_id r = Some i then b else r) xs)
   = map (\<lambda>r. if s_id r = Some i then c else r) xs"
  by (induction xs) auto

lemma handle_signature_file_valid:
  assumes "truthy_str data" "truthy_str title" "truthy_str data_type" "truthy_source source_name"
    "the data_type \<in> set (sig_types d)"
  shows "handle_signature_file e d data source_name user description title data_type
       link_id method reference copy_rels bucket_list ticket =
     (let md5 = hash_md5 e (the data);
             timestamp = now e;
             sg0 = (case first_by_md5 d md5 of
                      None \<Rightarrow> (Signature d)\<lparr>s_created := timestamp, s_description := description,
                                 s_md5 := md5, s_data := the data, s_title := the title,
                                 s_data_type := the data_type\<rparr>
                    | Some s \<Rightarrow> s);
             sg1 = add_sources source_name timestamp method reference user sg0
         in case link_and_copy e d user link_id copy_rels sg1 of
              Inl err \<Rightarrow> (Inl err, d)
            | Inr (d1, sg2) \<Rightarrow>
                (let sg3 = sg2\<lparr>s_version := Some (int (length (objects_by_link d1 link_id)) + 1)\<rparr>;
                     sg4 = (if bucket_list \<noteq> [] then add_bucket_list bucket_list sg3 else sg3);
                     sg5 = (if ticket \<noteq> [] then add_ticket ticket sg4 else sg4)
                 in case save e d1 sg5 of
                      Inl err \<Rightarrow> (Inl err, d1)
                    | Inr (d2, sg6) \<Rightarrow>
                        (Inr (Dict [(''success'', VBool True),
                                    (''message'', VStr ''Uploaded signature''),
                                    (''_id'', VId (s_id sg6)),
                                    (''object'', VSig sg6)]), d2)))"
proof -
  from assms(1) obtain c where "data = Some c" "c \<noteq> []" by (cases data) auto
  then have "\<not> int (length (the data)) \<le> 0" by simp
  with assms show ?thesis unfolding handle_signature_file_def
    by (simp add: first_type_None_iff)
qed

lemma handle_signature_file_success_valid:
  assumes "handle_signature_file e d data source_name user description title data_type
       link_id method reference copy_rels bucket_list ticket
       = (Inr (Dict ((''success'', VBool True) # rest)), d')"
  shows "truthy_str data \<and> truthy_str title \<and> truthy_str data_type \<and> truthy_source source_name
       \<and> the data_type \<in> set (sig_types d)"
  using assms unfolding handle_signature_file_def failure_def
  by (auto simp: first_type_None_iff split: if_splits)



lemma merge_source_instances:
  "sum_list (map (\<lambda>s. length (es_instances s)) (merge_source src ss))
     = sum_list (map (\<lambda>s. length (es_instances s)) ss) + length (es_instances src)"
  by (induction ss) auto

lemma add_sources_name_adds_instance:
  "name \<noteq> [] \<Longrightarrow>
   sum_list (map (\<lambda>s. length (es_instances s))
               (s_source (add_sources (SrcStr name) ts meth ref user sg)))
     = sum_list (map (\<lambda>s. length (es_instances s)) (s_source sg)) + 1"
  by (simp add: add_source_def create_embedded_source_def merge_source_instances)

lemmas eval_defs = handle_signature_file_def test_env_def empty_db_def first_by_md5_def
  first_type_def first_by_id_def link_and_copy_def save_def Signature_def add_source_def
  create_embedded_source_def failure_def add_bucket_list_def add_ticket_def
  add_relationship_def Let_def

lemmas eval_defs2 = update_signature_highlight_comment_def update_signature_highlight_date_def
  new_inline_comment_def new_highlight_def delete_highlight_def delete_signature_def
  update_signature_type_def remove_highlight_def add_highlight_def add_inline_comment_def
  delete_def

lemma first_db_eq: "first_db = \<lparr>sigs = [ruleA], sig_types = [''YARA''], next_id = 1\<rparr>"
  by (simp add: first_db_def ruleA_def eval_defs)

lemma second_call:
  "handle_signature_file test_env first_db (Some ''ruleA'') (SrcStr ''OtherFeed'')
      (Some ''analyst'') (Some ''other text'') (Some ''T2'') (Some ''YARA'') (Some (Link ''L''))
      [] [] False [] []
   = (Inr (Dict [(''success'', VBool True), (''message'', VStr ''Uploaded signature''),
                 (''_id'', VId (Some 0)),
                 (''object'', VSig (ruleA\<lparr>s_version := Some 2,
                     s_source := s_source ruleA @ [\<lparr>es_name = ''OtherFeed'', es_instances = [\<lparr>si_date = 100, si_method = [],
           si_reference = [], si_analyst = Some ''analyst''\<rparr>]\<rparr>]\<rparr>))]),
      \<lparr>sigs = [ruleA\<lparr>s_version := Some 2,
                     s_source := s_source ruleA @ [\<lparr>es_name = ''OtherFeed'', es_instances = [\<lparr>si_date = 100, si_method = [],
           si_reference = [], si_analyst = Some ''analyst''\<rparr>]\<rparr>]\<rparr>], sig_types = [''YARA''], next_id = 1\<rparr>)"
  by (simp add: first_db_eq ruleA_def eval_defs)

lemma marked_db_eq:
  "marked_db =
     \<lparr>sigs = [ruleA\<lparr>s_highlights :=
        [\<lparr>h_line = 5, h_line_data = ''foo'', h_comment = None, h_line_date = Some 100,
          h_analyst = ''analyst''\<rparr>,
         \<lparr>h_line = 8, h_line_data = ''baz'', h_comment = None, h_line_date = Some 100,
          h_analyst = ''analyst''\<rparr>]\<rparr>],
      sig_types = [''YARA''], next_id = 1\<rparr>"
  by (simp add: marked_db_def first_db_eq ruleA_def test_env_def new_highlight_def
                add_highlight_def save_def first_by_id_def)

























lemma reachable_empty_db: "reachable empty_db"
  by (rule reachable.start) (simp add: empty_db_def)



lemma reachable_bare_marked_db: "reachable bare_marked_db"
  unfolding bare_marked_db_def bare_db_def
  by (rule reachable.highlighted [OF reachable.submitted [OF reachable_empty_db]])



lemma set_first_comment_bad_line:
  "py_int line = Inl err \<Longrightarrow> hs \<noteq> [] \<Longrightarrow> set_first_comment hs line c = Some (Inl err)"
  by (cases hs) simp_all




lemma update_highlight_comment_bad_line:
  assumes "first_by_id d sid = Some sg" "s_highlights sg \<noteq> []" "py_int line = Inl err"
  shows "update_signature_highlight_comment e d sid comment line analyst = (Inl err, d)"
  using assms set_first_comment_bad_line [OF assms(3,2), of comment]
  by (simp add: update_signature_highlight_comment_def)


lemma filter_other_ids:
  "find (\<lambda>s. s_id s = Some i) xs = None \<Longrightarrow> filter (\<lambda>r. s_id r \<noteq> Some i) xs = xs"
  by (induction xs) (auto split: if_splits)

lemma set_first_date_unparsed:
  "py_int line = Inr n \<Longrightarrow> \<exists>h\<in>set hs. h_line h = n \<Longrightarrow> parse e date = None \<Longrightarrow>
   set_first_date e hs line date = Some (Inl ValueError)"
proof (induction hs)
  case Nil
  then show ?case by simp
next
  case (Cons a hs)
  show ?case
  proof (cases "h_line a = n")
    case True
    with Cons.prems show ?thesis by simp
  next
    case False
    with Cons.prems have "\<exists>h\<in>set hs. h_line h = n" by auto
    from Cons.IH [OF Cons.prems(1) this Cons.prems(3)] False Cons.prems(1) show ?thesis by simp
  qed
qed

lemma version_without_copy:
  assumes ok: "handle_signature_file e d data source_name user description title data_type
                 link_id method reference False bucket_list ticket
               = (Inr (Dict ((''success'', VBool True) # rest)), d')"
  shows "\<exists>sg. rest = [(''message'', VStr ''Uploaded signature''), (''_id'', VId (s_id sg)),
                      (''object'', VSig sg)]
           \<and> s_version sg = Some (int (length (objects_by_link d link_id)) + 1)"
proof -
  note valid = handle_signature_file_success_valid [OF ok]
  define sg1 where "sg1 = add_sources source_name (now e) method reference user
      (case first_by_md5 d (hash_md5 e (the data)) of
         None \<Rightarrow> (Signature d)\<lparr>s_created := now e, s_description := description,
                    s_md5 := hash_md5 e (the data), s_data := the data, s_title := the title,
                    s_data_type := the data_type\<rparr>
       | Some s \<Rightarrow> s)"
  define sg2 where "sg2 = (if truthy_link link_id then sg1\<lparr>s_link_id := the link_id\<rparr> else sg1)"
  define sg5 where "sg5 = tagged bucket_list ticket
      (sg2\<lparr>s_version := Some (int (length (objects_by_link d link_id)) + 1)\<rparr>)"
  have v5: "s_version sg5 = Some (int (length (objects_by_link d link_id)) + 1)"
    using tagged_frame [of "sg2\<lparr>s_version := Some (int (length (objects_by_link d link_id)) + 1)\<rparr>"
                          bucket_list ticket]
    by (simp add: sg5_def)
  have run: "handle_signature_file e d data source_name user description title data_type
                 link_id method reference False bucket_list ticket =
       (case save e d sg5 of
                Inl err \<Rightarrow> (Inl err, d)
              | Inr (d2, sg6) \<Rightarrow>
                  (Inr (Dict [(''success'', VBool True),
                              (''message'', VStr ''Uploaded signature''),
                              (''_id'', VId (s_id sg6)),
                              (''object'', VSig sg6)]), d2))"
    using valid
    by (simp add: handle_signature_file_valid link_and_copy_no_copy sg1_def sg2_def sg5_def
                  tagged_def Let_def)
  from ok obtain d2 sg6 where sv: "save e d sg5 = Inr (d2, sg6)"
    and res: "rest = [(''message'', VStr ''Uploaded signature''), (''_id'', VId (s_id sg6)),
                      (''object'', VSig sg6)]"
    unfolding run by (cases "save e d sg5") auto
  from save_version [OF sv] v5 res show ?thesis by (intro exI [of _ sg6]) simp
qed

lemma update_signature_type_on_existing_record:
  assumes "first_by_id d sid = Some sg"
  shows "(data_type \<notin> set (sig_types d) \<longrightarrow>
            update_signature_type e d sid data_type analyst = (Inr PyNone, d))
       \<and> (data_type \<in> set (sig_types d) \<longrightarrow>
            (case validate e (sg\<lparr>s_data_type := data_type\<rparr>) of
               None \<Rightarrow> update_signature_type e d sid data_type analyst =
                   (Inr (Dict [(''success'', VBool True)]),
                    d\<lparr>sigs := map (\<lambda>r. if s_id r = Some sid then sg\<lparr>s_data_type := data_type\<rparr> else r) (sigs d)\<rparr>)
             | Some msg \<Rightarrow> update_signature_type e d sid data_type analyst =
                   (Inr (Dict [(''success'', VBool False), (''message'', VStr msg)]), d)))"
proof -
  have sg: "s_id sg = Some sid" "sg \<in> set (sigs d)" using first_by_id_Some [OF assms] by auto
  have sv: "save e d (sg\<lparr>s_data_type := data_type\<rparr>) =
     (case validate e (sg\<lparr>s_data_type := data_type\<rparr>) of
        Some msg \<Rightarrow> Inl (ValidationError msg)
      | None \<Rightarrow> Inr (d\<lparr>sigs := map (\<lambda>r. if s_id r = Some sid then sg\<lparr>s_data_type := data_type\<rparr> else r) (sigs d)\<rparr>, sg\<lparr>s_data_type := data_type\<rparr>))"
    using save_existing [OF sg(2) sg(1), of "sg\<lparr>s_data_type := data_type\<rparr>" e] sg(1) by simp
  show ?thesis
  proof (intro conjI impI)
    assume "data_type \<notin> set (sig_types d)"
    then show "update_signature_type e d sid data_type analyst = (Inr PyNone, d)"
      by (simp add: update_signature_type_def first_type_None_iff [symmetric])
  next
    assume "data_type \<in> set (sig_types d)"
    then obtain t where t: "first_type d data_type = Some t" 
      using first_type_None_iff [of d data_type] by auto
    then have "t = data_type" using first_type_Some by blast
    with t show "case validate e (sg\<lparr>s_data_type := data_type\<rparr>) of
               None \<Rightarrow> update_signature_type e d sid data_type analyst =
                   (Inr (Dict [(''success'', VBool True)]),
                    d\<lparr>sigs := map (\<lambda>r. if s_id r = Some sid then sg\<lparr>s_data_type := data_type\<rparr> else r) (sigs d)\<rparr>)
             | Some msg \<Rightarrow> update_signature_type e d sid data_type analyst =
                   (Inr (Dict [(''success'', VBool False), (''message'', VStr msg)]), d)"
      using assms sv by (simp add: update_signature_type_def failure_def split: option.splits)
  qed
qed

theorem second_submission_versions:
  "map s_version (sigs first_db) = [Some 1]
   \<and> map s_version (sigs (snd (handle_signature_file test_env related_db (Some ''ruleB'')
          (SrcStr ''OSINT'') (Some ''analyst'') None (Some ''T2'') (Some ''YARA'')
          (Some (Link ''L'')) [] [] True [] []))) = [Some 1, Some 3]
   \<and> map s_version (sigs (snd (handle_signature_file test_env related_db (Some ''ruleB'')
          (SrcStr ''OSINT'') (Some ''analyst'') None (Some ''T2'') (Some ''YARA'')
          (Some (Link ''L'')) [] [] False [] []))) = [Some 1, Some 2]"
  by (simp add: related_db_def first_db_eq ruleA_def eval_defs)

theorem resubmission_reuses_record:
  assumes found: "first_by_md5 d (hash_md5 e c) = Some r"
    and stored: "s_id r = Some i"
    and ok: "handle_signature_file e d (Some c) source_name user description title data_type
               link_id method reference copy_rels bucket_list ticket
             = (Inr (Dict ((''success'', VBool True) # rest)), d')"
  shows "\<exists>r'. rest = [(''message'', VStr ''Uploaded signature''), (''_id'', VId (Some i)),
                      (''object'', VSig r')]
     \<and> sigs d' = map (\<lambda>x. if s_id x = Some i then r' else x) (sigs d)
     \<and> length (sigs d') = length (sigs d)
     \<and> s_id r' = Some i \<and> s_md5 r' = s_md5 r \<and> s_data r' = s_data r
     \<and> s_title r' = s_title r \<and> s_description r' = s_description r
     \<and> s_source r' = s_source (add_sources source_name (now e) method reference user r)
     \<and> (\<not> copy_rels \<longrightarrow> s_version r' = Some (int (length (objects_by_link d link_id)) + 1))"
proof -
  define sg1 where "sg1 = add_sources source_name (now e) method reference user r"
  have r: "r \<in> set (sigs d)" using first_by_md5_Some [OF found] by simp
  then have ids: "Some i \<in> s_id ` set (sigs d)" using stored by force
  have k1: "kept r sg1" using add_sources_frame [of r] by (simp add: sg1_def)
  then have id1: "s_id sg1 = Some i" using stored by (simp add: kept_def)
  note valid = handle_signature_file_success_valid [OF ok]
  have unf: "handle_signature_file e d (Some c) source_name user description title data_type
               link_id method reference copy_rels bucket_list ticket =
      (case link_and_copy e d user link_id copy_rels sg1 of
              Inl err \<Rightarrow> (Inl err, d)
            | Inr (d1, sg2) \<Rightarrow>
                (let sg3 = sg2\<lparr>s_version := Some (int (length (objects_by_link d1 link_id)) + 1)\<rparr>;
                     sg4 = (if bucket_list \<noteq> [] then add_bucket_list bucket_list sg3 else sg3);
                     sg5 = (if ticket \<noteq> [] then add_ticket ticket sg4 else sg4)
                 in case save e d1 sg5 of
                      Inl err \<Rightarrow> (Inl err, d1)
                    | Inr (d2, sg6) \<Rightarrow>
                        (Inr (Dict [(''success'', VBool True),
                                    (''message'', VStr ''Uploaded signature''),
                                    (''_id'', VId (s_id sg6)),
                                    (''object'', VSig sg6)]), d2)))"
    using valid found by (simp add: handle_signature_file_valid sg1_def)
  obtain d1 sg2 where lc: "link_and_copy e d user link_id copy_rels sg1 = Inr (d1, sg2)"
    using ok unfolding unf by (cases "link_and_copy e d user link_id copy_rels sg1") auto
  define sg5 where "sg5 = tagged bucket_list ticket
      (sg2\<lparr>s_version := Some (int (length (objects_by_link d1 link_id)) + 1)\<rparr>)"
  have run: "(case save e d1 sg5 of
                Inl err \<Rightarrow> (Inl err, d1)
              | Inr (d2, sg6) \<Rightarrow>
                  (Inr (Dict [(''success'', VBool True),
                              (''message'', VStr ''Uploaded signature''),
                              (''_id'', VId (s_id sg6)),
                              (''object'', VSig sg6)]), d2))
             = (Inr (Dict ((''success'', VBool True) # rest)), d')"
    using ok unfolding unf lc by (simp add: sg5_def tagged_def Let_def)
  then obtain d2 sg6 where sv: "save e d1 sg5 = Inr (d2, sg6)"
    and res: "rest = [(''message'', VStr ''Uploaded signature''), (''_id'', VId (s_id sg6)),
                      (''object'', VSig sg6)]" and d2: "d2 = d'"
    by (cases "save e d1 sg5") auto
  note lce = link_and_copy_existing [OF lc id1 ids]
  have k2: "kept sg1 sg2" and src2: "s_source sg2 = s_source sg1" using lce by simp_all
  have k5: "kept sg2 sg5" and src5: "s_source sg5 = s_source sg2"
    and v5: "s_version sg5 = Some (int (length (objects_by_link d1 link_id)) + 1)"
    using tagged_frame [of "sg2\<lparr>s_version := Some (int (length (objects_by_link d1 link_id)) + 1)\<rparr>"
                          bucket_list ticket]
    by (simp_all add: sg5_def kept_def)
  have k: "kept r sg5" using k1 k2 k5 kept_trans by blast
  then have id5: "s_id sg5 = Some i" using stored by (simp add: kept_def)
  have d1: "sigs d2 = map (\<lambda>x. if s_id x = Some i then sg5 else x) (sigs d) \<and> sg6 = sg5"
  proof -
    from lce consider "d1 = d"
      | sg' where "s_id sg' = Some i"
          "d1 = d\<lparr>sigs := map (\<lambda>r. if s_id r = Some i then sg' else r) (sigs d)\<rparr>"
      by blast
    then show ?thesis
    proof cases
      case 1
      with sv save_existing [OF r stored id5, of e] show ?thesis
        by (auto split: option.splits)
    next
      case 2
      have "sg' \<in> set (sigs d1)" using 2 r stored by force
      from sv save_existing [OF this 2(1) id5, of e] 2 show ?thesis
        by (auto simp: map_replace_twice split: option.splits)
    qed
  qed
  have ver: "\<not> copy_rels \<longrightarrow> s_version sg5 = Some (int (length (objects_by_link d link_id)) + 1)"
    using lce v5 by auto
  show ?thesis
    using res d1 d2 k id5 src5 src2 ver
    by (intro exI [of _ sg5]) (simp add: kept_def sg1_def)
qed

lemma resubmission_duplicates_versions:
  "map s_version (sigs (snd (handle_signature_file test_env
      (snd (handle_signature_file test_env
         (snd (handle_signature_file test_env first_db (Some ''ruleB'') (SrcStr ''OSINT'')
                 (Some ''analyst'') None (Some ''T2'') (Some ''YARA'') (Some (Link ''L''))
                 [] [] False [] []))
         (Some ''ruleA'') (SrcStr ''OSINT'') (Some ''analyst'') None (Some ''T1'')
         (Some ''YARA'') (Some (Link ''L'')) [] [] False [] []))
      (Some ''ruleC'') (SrcStr ''OSINT'') (Some ''analyst'') None (Some ''T3'') (Some ''YARA'')
      (Some (Link ''L'')) [] [] False [] [])))
   = [Some 3, Some 2, Some 3]"
  by (simp add: first_db_eq ruleA_def eval_defs)


lemma submission_without_source_strict:
  "handle_signature_file strict_env empty_db (Some ''ruleA'') (SrcList [ItemStr ''OSINT''])
     (Some ''analyst'') None (Some ''T1'') (Some ''YARA'') None [] [] False [] []
   = (Inl (ValidationError ''Field is required: source''), empty_db)"
  by (simp add: strict_env_def eval_defs)

section \<open>Resubmitting known content\<close>

text \<open>
  Claim C1. A second submission of byte-identical content finds the record by its MD5 and
  goes on with it: no record is added, the title and the description stay as they were
  (\<open>resubmission_reuses_record\<close> above), and a source named by a string gains one
  instance (\<open>add_sources_name_adds_instance\<close> above). The claim further has the version
  unchanged, and there the code departs from it: line 401 numbers the record on every
  submission, and a record that is stored under the link id already is counted among the
  records of that link id. After a first submission of \<^verbatim>\<open>ruleA\<close> under the link id \<^verbatim>\<open>L\<close> the
  one record has version 1; the same content submitted again under \<^verbatim>\<open>L\<close>, from another
  feed and with another title and description, is still the one record of id 0, with its
  title \<^verbatim>\<open>T1\<close>, with both sources, and with version 2. The record counts itself, as the
  new record of claim C2 does; versions of one link id can then coincide
  (\<open>resubmission_duplicates_versions\<close> above), and \<^verbatim>\<open>get_id_from_link_and_version\<close>
  looks records up by link id and version.
\<close>

theorem resubmission_changes_version:
  "map s_id (sigs first_db) = [Some 0] \<and> map s_version (sigs first_db) = [Some 1]
   \<and> map s_id (sigs (snd (handle_signature_file test_env first_db (Some ''ruleA'')
          (SrcStr ''OtherFeed'') (Some ''analyst'') (Some ''other text'') (Some ''T2'')
          (Some ''YARA'') (Some (Link ''L'')) [] [] False [] []))) = [Some 0]
   \<and> map s_title (sigs (snd (handle_signature_file test_env first_db (Some ''ruleA'')
          (SrcStr ''OtherFeed'') (Some ''analyst'') (Some ''other text'') (Some ''T2'')
          (Some ''YARA'') (Some (Link ''L'')) [] [] False [] []))) = [''T1'']
   \<and> map (\<lambda>s. map es_name (s_source s)) (sigs (snd (handle_signature_file test_env first_db
          (Some ''ruleA'') (SrcStr ''OtherFeed'') (Some ''analyst'') (Some ''other text'')
          (Some ''T2'') (Some ''YARA'') (Some (Link ''L'')) [] [] False [] [])))
       = [[''OSINT'', ''OtherFeed'']]
   \<and> map s_version (sigs (snd (handle_signature_file test_env first_db (Some ''ruleA'')
          (SrcStr ''OtherFeed'') (Some ''analyst'') (Some ''other text'') (Some ''T2'')
          (Some ''YARA'') (Some (Link ''L'')) [] [] False [] []))) = [Some 2]"
  by (simp add: second_call) (simp add: first_db_eq ruleA_def)

theorem resubmission_changes_version_witness:
  "map s_version (sigs (snd (handle_signature_file test_env first_db (Some ''ruleA'')
          (SrcStr ''OtherFeed'') (Some ''analyst'') (Some ''other text'') (Some ''T2'')
          (Some ''YARA'') (Some (Link ''L'')) [] [] False [] []))) = [Some 2]"
  using resubmission_changes_version by (elim conjE)

section \<open>Versions within a link id\<close>

text \<open>
  Claim C2. The claim is that sequential submissions under one link id receive the versions
  1, 2, 3 and so on, each the number of records of the group plus one, with or without
  \<^verbatim>\<open>copy_rels\<close>. Without \<^verbatim>\<open>copy_rels\<close> that is what line 401 computes
  (\<open>version_without_copy\<close> above). With \<^verbatim>\<open>copy_rels\<close> it is not: when new content is
  submitted under a link id whose first record has relationships, line 389 saves the new
  record under that link id before line 401 counts the group, so the record counts itself
  and its version is the number of records of the group plus two. In the run of
  \<open>second_submission_versions\<close> above the second submission under \<^verbatim>\<open>L\<close> receives
  version 3 with \<^verbatim>\<open>copy_rels\<close> and version 2 without.
\<close>

theorem copy_rels_counts_the_new_record:
  assumes new: "first_by_md5 d (hash_md5 e c) = None"
    and fields: "c \<noteq> []" "t \<noteq> []" "ty \<noteq> []" "ty \<in> set (sig_types d)"
    and given: "truthy_source source_name"
    and link: "truthy_link (Some l)"
    and chain: "find (\<lambda>s. s_link_id s = l) (sigs d) = Some rd2"
    and rels: "s_relationships rd2 \<noteq> []"
    and accepted: "\<forall>s. validate e s = None"
  shows "\<exists>sg d'. handle_signature_file e d (Some c) source_name user description (Some t) (Some ty)
                    (Some l) meth ref True bucket_list ticket
                = (Inr (Dict [(''success'', VBool True), (''message'', VStr ''Uploaded signature''),
                              (''_id'', VId (Some (next_id d))), (''object'', VSig sg)]), d')
          \<and> s_link_id sg = l
          \<and> s_version sg = Some (int (length (objects_by_link d (Some l))) + 2)"
proof -
  define sg1 where "sg1 = add_sources source_name (now e) meth ref user
      ((Signature d)\<lparr>s_created := now e, s_description := description,
         s_md5 := hash_md5 e c, s_data := c, s_title := t, s_data_type := ty\<rparr>)"
  have id1: "s_id sg1 = None"
    using add_sources_frame [of "(Signature d)\<lparr>s_created := now e, s_description := description,
         s_md5 := hash_md5 e c, s_data := c, s_title := t, s_data_type := ty\<rparr>"
         source_name "now e" meth ref user]
    by (simp add: sg1_def kept_def Signature_def)
  define sgL where "sgL = sg1\<lparr>s_link_id := l, s_id := Some (next_id d)\<rparr>"
  define d1 where "d1 = d\<lparr>sigs := sigs d @ [sgL], next_id := Suc (next_id d)\<rparr>"
  define sg2 where "sg2 = copy_relationships e user (s_relationships rd2) sgL"
  have sv1: "save e d (sg1\<lparr>s_link_id := l\<rparr>) = Inr (d1, sgL)"
    using save_accepted_new [of e "sg1\<lparr>s_link_id := l\<rparr>" d] accepted id1
    by (simp add: sgL_def d1_def)
  have lc: "link_and_copy e d user (Some l) True sg1 = Inr (d1, sg2)"
    using link chain rels sv1 by (simp add: link_and_copy_def sg2_def)
  have sgL: "s_id sgL = Some (next_id d)" "s_link_id sgL = l" by (simp_all add: sgL_def)
  have sg2: "s_id sg2 = Some (next_id d)" "s_link_id sg2 = l"
    using copy_relationships_frame [of sgL e user "s_relationships rd2"] sgL
    by (simp_all add: sg2_def kept_def)
  have cnt: "length (objects_by_link d1 (Some l)) = Suc (length (objects_by_link d (Some l)))"
    using sgL(2) by (simp add: d1_def)
  define sg5 where "sg5 = tagged bucket_list ticket
      (sg2\<lparr>s_version := Some (int (length (objects_by_link d1 (Some l))) + 1)\<rparr>)"
  have sg5: "s_id sg5 = Some (next_id d)" "s_link_id sg5 = l"
      "s_version sg5 = Some (int (length (objects_by_link d (Some l))) + 2)"
    using tagged_frame [of "sg2\<lparr>s_version := Some (int (length (objects_by_link d1 (Some l))) + 1)\<rparr>"
                          bucket_list ticket] sg2 cnt
    by (simp_all add: sg5_def kept_def)
  have run: "handle_signature_file e d (Some c) source_name user description (Some t) (Some ty)
               (Some l) meth ref True bucket_list ticket =
       (case save e d1 sg5 of
                Inl err \<Rightarrow> (Inl err, d1)
              | Inr (d2, sg6) \<Rightarrow>
                  (Inr (Dict [(''success'', VBool True),
                              (''message'', VStr ''Uploaded signature''),
                              (''_id'', VId (s_id sg6)),
                              (''object'', VSig sg6)]), d2))"
    using fields given new lc
    by (simp add: handle_signature_file_valid sg1_def [symmetric] sg5_def tagged_def Let_def)
  have mem: "sgL \<in> set (sigs d1)" by (simp add: d1_def)
  have v5: "validate e sg5 = None" using accepted by simp
  from save_existing [OF mem sgL(1) sg5(1), of e] v5
  have sv: "save e d1 sg5 =
      Inr (d1\<lparr>sigs := map (\<lambda>r. if s_id r = Some (next_id d) then sg5 else r) (sigs d1)\<rparr>, sg5)"
    by simp
  show ?thesis unfolding run sv using sg5 by simp
qed

text \<open>The second submission under \<^verbatim>\<open>L\<close>, whose first record is related to an indicator.\<close>

theorem copy_rels_counts_the_new_record_witness:
  "\<exists>sg d'. handle_signature_file test_env related_db (Some ''ruleB'') (SrcStr ''OSINT'')
                 (Some ''analyst'') None (Some ''T2'') (Some ''YARA'') (Some (Link ''L''))
                 [] [] True [] []
             = (Inr (Dict [(''success'', VBool True), (''message'', VStr ''Uploaded signature''),
                           (''_id'', VId (Some 1)), (''object'', VSig sg)]), d')
          \<and> s_link_id sg = Link ''L'' \<and> s_version sg = Some 3"
proof -
  have db: "related_db = \<lparr>sigs = [add_relationship ''Indicator'' ''i1'' ''Related To'' 50
                                     (Some ''analyst'') ruleA],
                          sig_types = [''YARA''], next_id = 1\<rparr>"
    by (simp add: related_db_def first_db_eq)
  have new: "first_by_md5 related_db (hash_md5 test_env ''ruleB'') = None"
    by (simp add: db first_by_md5_def test_env_def ruleA_def add_relationship_def)
  have ty: "''YARA'' \<in> set (sig_types related_db)" by (simp add: db)
  have chain: "find (\<lambda>s. s_link_id s = Link ''L'') (sigs related_db)
      = Some (add_relationship ''Indicator'' ''i1'' ''Related To'' 50 (Some ''analyst'') ruleA)"
    by (simp add: db ruleA_def add_relationship_def)
  have rels: "s_relationships (add_relationship ''Indicator'' ''i1'' ''Related To'' 50
                (Some ''analyst'') ruleA) \<noteq> []"
    by (simp add: add_relationship_def)
  have acc: "\<forall>s. validate test_env s = None" by (simp add: test_env_def)
  have e: "next_id related_db = 1"
      "int (length (objects_by_link related_db (Some (Link ''L'')))) + 2 = 3"
    by (simp_all add: db ruleA_def add_relationship_def)
  from copy_rels_counts_the_new_record [OF new _ _ _ ty _ _ chain rels acc, where t = "''T2''"
                and source_name = "SrcStr ''OSINT''" and user = "Some ''analyst''"
                and description = None and meth = "[]" and ref = "[]"
                and bucket_list = "[]" and ticket = "[]"]
  show ?thesis unfolding e by simp
qed

section \<open>Rejected submissions\<close>

text \<open>
  Claim C3. \<^verbatim>\<open>handle_signature_file\<close> answers with a dict whose \<^verbatim>\<open>success\<close> is
  \<^verbatim>\<open>False\<close> and leaves the collection as it was whenever \<^verbatim>\<open>data\<close>, \<^verbatim>\<open>title\<close> or
  \<^verbatim>\<open>data_type\<close> is missing or empty, whenever \<^verbatim>\<open>source_name\<close> is missing or empty,
  whenever \<^verbatim>\<open>data_type\<close> names no registered type, or whenever the content has no
  positive length.
\<close>

theorem handle_signature_file_rejects_invalid_input:
  assumes "\<not> truthy_str data \<or> \<not> truthy_str title \<or> \<not> truthy_str data_type
           \<or> \<not> truthy_source source_name
           \<or> (\<exists>t. data_type = Some t \<and> t \<notin> set (sig_types d))
           \<or> (\<exists>s. data = Some s \<and> int (length s) \<le> 0)"
  shows "\<exists>msg. handle_signature_file e d data source_name user description title data_type
           link_id method reference copy_rels bucket_list ticket
         = (Inr (Dict [(''success'', VBool False), (''message'', VStr msg)]), d)"
  using assms
  by (auto simp: handle_signature_file_def failure_def first_type_None_iff)

text \<open>The unregistered type \<^verbatim>\<open>SNORT\<close> is turned down.\<close>

theorem handle_signature_file_rejects_invalid_input_witness:
  "\<exists>msg. handle_signature_file test_env empty_db (Some ''ruleA'') (SrcStr ''OSINT'') None None
           (Some ''T1'') (Some ''SNORT'') None [] [] False [] []
         = (Inr (Dict [(''success'', VBool False), (''message'', VStr msg)]), empty_db)"
  using handle_signature_file_rejects_invalid_input [where data = "Some ''ruleA''" and data_type = "Some ''SNORT''" and d = empty_db
              and e = test_env and source_name = "SrcStr ''OSINT''" and title = "Some ''T1''"]
  by (simp add: empty_db_def)

section \<open>Changing the comment of a highlight\<close>




section \<open>Deleting a highlight\<close>




section \<open>Deleting a record\<close>

text \<open>
  Claim C6. The claim is that a caller who is no administrator receives an outcome that
  differs from the one for a missing record. \<^verbatim>\<open>delete_signature\<close> returns a bool, and
  \<^verbatim>\<open>False\<close> in both cases: a guest deleting the existing record 0 and the administrator
  deleting the missing record 7 receive the same value, and the collection is the same.
\<close>

theorem delete_signature_denied_like_missing:
  "delete_signature test_env first_db 0 (Some ''guest'') = (Inr (PyBool False), first_db)
   \<and> delete_signature test_env first_db 7 (Some ''admin'') = (Inr (PyBool False), first_db)"
  by (simp add: first_db_eq ruleA_def test_env_def eval_defs2 first_by_id_def)

text \<open>
  Claim C6, as the code has it. Without the administrator privilege the result is
  \<^verbatim>\<open>False\<close> and nothing is deleted. With it, the result says whether a record of that id
  existed, and no record of that id is left.
\<close>

theorem delete_signature_admin_gate:
  "(\<not> is_admin e username \<longrightarrow>
      delete_signature e d sid username = (Inr (PyBool False), d))
   \<and> (is_admin e username \<longrightarrow>
      delete_signature e d sid username =
        (Inr (PyBool (first_by_id d sid \<noteq> None)),
         d\<lparr>sigs := filter (\<lambda>r. s_id r \<noteq> Some sid) (sigs d)\<rparr>))"
proof (cases "first_by_id d sid")
  case None
  then have "filter (\<lambda>r. s_id r \<noteq> Some sid) (sigs d) = sigs d"
    by (simp add: first_by_id_def filter_other_ids)
  with None show ?thesis by (simp add: delete_signature_def)
next
  case (Some sg)
  then have "s_id sg = Some sid" using first_by_id_Some by blast
  with Some show ?thesis by (simp add: delete_signature_def delete_def)
qed

text \<open>A guest and the administrator delete record 0 of the collection after the first submission.\<close>

theorem delete_signature_admin_gate_witness:
  "delete_signature test_env first_db 0 (Some ''guest'') = (Inr (PyBool False), first_db)
   \<and> delete_signature test_env first_db 0 (Some ''admin'') =
        (Inr (PyBool True), \<lparr>sigs = [], sig_types = [''YARA''], next_id = 1\<rparr>)"
  using delete_signature_admin_gate [of test_env "Some ''guest''" first_db 0] delete_signature_admin_gate [of test_env "Some ''admin''" first_db 0]
  by (simp add: first_db_eq ruleA_def test_env_def first_by_id_def)

section \<open>Changing the data type\<close>

text \<open>
  Claim C7. The claim is made for every call of \<^verbatim>\<open>update_signature_type\<close>. For a
  registered type and an id that matches no record, line 444 assigns to an attribute of
  \<^verbatim>\<open>None\<close>: \<^verbatim>\<open>AttributeError\<close> escapes, where the claim has the change persisted or a
  failure dict returned. (For a record that exists the claim holds:
  \<open>update_signature_type_on_existing_record\<close> above.)
\<close>

theorem update_signature_type_raises_on_missing_record:
  assumes "first_by_id d sid = None" "data_type \<in> set (sig_types d)"
  shows "update_signature_type e d sid data_type analyst = (Inl AttributeError, d)"
  using assms
  by (auto simp: update_signature_type_def first_type_None_iff split: option.splits)

theorem update_signature_type_raises_on_missing_record_witness:
  "update_signature_type test_env empty_db 0 ''YARA'' (Some ''analyst'')
     = (Inl AttributeError, empty_db)"
  using update_signature_type_raises_on_missing_record [of empty_db 0 "''YARA''" test_env "Some ''analyst''"]
  by (simp add: empty_db_def first_by_id_def)

section \<open>Changing the date of a highlight\<close>

text \<open>
  Claim C8. The claim is that an unparseable date fails with an invalid-input result and no
  other fault. \<^verbatim>\<open>parse(date, fuzzy=True)\<close> stands outside the \<^verbatim>\<open>try\<close> of line 502, which
  catches \<^verbatim>\<open>ValidationError\<close> only: when a highlight has the line and the parser raises,
  \<^verbatim>\<open>ValueError\<close> escapes the handler and nothing is stored.
\<close>

theorem update_highlight_date_unparseable_raises:
  assumes "first_by_id d sid = Some sg"
    and "py_int line = Inr n"
    and "\<exists>h\<in>set (s_highlights sg). h_line h = n"
    and "parse e date = None"
  shows "update_signature_highlight_date e d sid date line analyst = (Inl ValueError, d)"
  using assms set_first_date_unparsed [OF assms(2,3,4)]
  by (simp add: update_signature_highlight_date_def)

theorem update_highlight_date_unparseable_raises_witness:
  "update_signature_highlight_date test_env marked_db 0 ''not a date'' (LineInt 5) (Some ''analyst'')
     = (Inl ValueError, marked_db)"
  using update_highlight_date_unparseable_raises [of marked_db 0 "hd (sigs marked_db)" "LineInt 5" 5 test_env "''not a date''"
              "Some ''analyst''"]
  by (simp add: marked_db_eq ruleA_def first_by_id_def test_env_def)

section \<open>Handlers that do not test the lookup\<close>

text \<open>
  Claim C9. The claim is that \<^verbatim>\<open>new_inline_comment\<close>, \<^verbatim>\<open>new_highlight\<close> and
  \<^verbatim>\<open>delete_highlight\<close> return a structured result for every record id. For an id that
  matches no record each of them lets \<^verbatim>\<open>AttributeError\<close> escape instead, the collection
  unchanged.
\<close>

theorem annotation_handlers_raise_on_missing_record:
  assumes "first_by_id d sid = None"
  shows "new_inline_comment e d sid comment line_num analyst = (Inl AttributeError, d)
       \<and> new_highlight e d sid line_num line_data analyst = (Inl AttributeError, d)
       \<and> delete_highlight e d sid line_num analyst = (Inl AttributeError, d)"
  using assms by (simp add: new_inline_comment_def new_highlight_def delete_highlight_def)

theorem annotation_handlers_raise_on_missing_record_witness:
  "new_inline_comment test_env empty_db 7 ''look here'' 3 ''analyst'' = (Inl AttributeError, empty_db)
   \<and> new_highlight test_env empty_db 7 3 ''rule x'' ''analyst'' = (Inl AttributeError, empty_db)
   \<and> delete_highlight test_env empty_db 7 3 ''analyst'' = (Inl AttributeError, empty_db)"
  using annotation_handlers_raise_on_missing_record [of empty_db 7 test_env "''look here''" 3 "''analyst''" "''rule x''"]
  by (simp add: first_by_id_def empty_db_def)

section \<open>Records without provenance\<close>



end
